theory Spec2Isabelle
  imports Complex_Main "HOL-Library.AList"
begin

section \<open>Splitting the input into pages\<close>

text \<open>
  The loop of \<open>processUsers\<close> in \<open>src/index.js\<close>:
  \<^verbatim>\<open>
  let userData = [];
  let data = JSON.parse(usersDataString);
  while (data.length) {
    userData.push(data.splice(0, folioPageSize));
  }
  \<close>
  \<open>splice(0, c)\<close> removes and returns the first \<open>min (max c 0) (length data)\<close>
  elements. The page size is the integer that \<open>splice\<close> makes of \<open>folioPageSize\<close>.
  The loop has no bound of its own, so the model is a partial function: \<open>None\<close> is the
  loop that never ends.
\<close>

definition splice0 :: "int \<Rightarrow> 'a list \<Rightarrow> 'a list \<times> 'a list" where
  "splice0 c data = (take (nat c) data, drop (nat c) data)"

partial_function (option) pages :: "int \<Rightarrow> 'a list \<Rightarrow> 'a list list \<Rightarrow> 'a list list option" where
  "pages folioPageSize data userData =
     (if data = [] then Some userData
      else pages folioPageSize (snd (splice0 folioPageSize data))
             (userData @ [fst (splice0 folioPageSize data)]))"

declare pages.simps [code]

section \<open>User records and the lookup tables\<close>

text \<open>
  A user object as \<open>JSON.parse\<close> delivers it. A field that may be missing is an
  \<open>option\<close>; \<open>None\<close> is JavaScript's \<open>undefined\<close>. The field \<open>id\<close> of the source is
  \<open>userId\<close> here. \<open>street\<close> stands for the rest of an address, which the program
  never reads.
\<close>

record address =
  addressTypeId :: "string option"
  street :: string

record personal =
  preferredContactTypeId :: "string option"
  addresses :: "address list option"

record user =
  userId :: "string option"
  externalSystemId :: string
  username :: string
  patronGroup :: "string option"
  personal :: "personal option"

text \<open>
  \<open>if (v)\<close> on a string or \<open>undefined\<close>: the empty string and \<open>undefined\<close> are falsy.
\<close>

definition truthy :: "string option \<Rightarrow> bool" where
  "truthy v = (case v of None \<Rightarrow> False | Some s \<Rightarrow> s \<noteq> [])"

text \<open>String concatenation with a value that may be \<open>undefined\<close>.\<close>

definition js_string :: "string option \<Rightarrow> string" where
  "js_string v = (case v of None \<Rightarrow> ''undefined'' | Some s \<Rightarrow> s)"

text \<open>
  The global tables \<open>patronGroups\<close> and \<open>addressTypes\<close> (name to id), the answers of
  the remote service, the ids that successive calls of \<open>uuidv1()\<close> return and the
  configured page size are what a run depends on.
\<close>

datatype http_method = GET | POST | PUT | DELETE

datatype content =
    NoContent
  | UserContent user
  | CredentialContent string string
  | PermissionContent string "string list"

record request =
  verb :: http_method
  path :: string
  written :: content

text \<open>
  The field \<open>method\<close> of the request options is \<open>verb\<close> here.
\<close>

text \<open>
  The body of an answer is only ever parsed by \<open>searchUsers\<close>: it is text that
  \<open>JSON.parse\<close> rejects, or an object whose field \<open>users\<close> is a list or is missing.
  A request can also end in the \<open>error\<close> event of the connection.
\<close>

datatype rawData = Unparseable | Json "user list option"

datatype response = Response int rawData | NetworkError string

record env =
  remote :: "request \<Rightarrow> response"
  uuidv1 :: "nat \<Rightarrow> string"
  patronGroups :: "string \<Rightarrow> string option"
  addressTypes :: "string \<Rightarrow> string option"
  folioPageSize :: int

definition preferredContactTypes :: "string \<Rightarrow> string option" where
  "preferredContactTypes =
     [''mail'' \<mapsto> ''001'', ''email'' \<mapsto> ''002'', ''text'' \<mapsto> ''003'',
      ''phone'' \<mapsto> ''004'', ''mobile'' \<mapsto> ''005'']"

section \<open>Translating a record: \<open>mapUserData\<close>\<close>

text \<open>
  \<^verbatim>\<open>
  if (user.patronGroup) {
    if (patronGroups[user.patronGroup]) { user.patronGroup = patronGroups[user.patronGroup]; }
    else { delete user.patronGroup; }
  }
  \<close>
  The same shape is used for \<open>preferredContactTypeId\<close>. \<open>translate\<close> is that shape
  for one field.
\<close>

definition translate :: "(string \<Rightarrow> string option) \<Rightarrow> string option \<Rightarrow> string option" where
  "translate table field =
     (if truthy field then
        (if truthy (table (js_string field)) then table (js_string field) else None)
      else field)"

text \<open>
  The loop over the addresses: an address is pushed to the new list only inside both
  tests, so one with no address type is left out like one with an unknown type.
\<close>

fun mapAddresses :: "(string \<Rightarrow> string option) \<Rightarrow> address list \<Rightarrow> address list" where
  "mapAddresses table [] = []"
| "mapAddresses table (address # rest) =
     (if truthy (addressTypeId address) then
        (if truthy (table (js_string (addressTypeId address))) then
           address\<lparr>addressTypeId := table (js_string (addressTypeId address))\<rparr>
             # mapAddresses table rest
         else mapAddresses table rest)
      else mapAddresses table rest)"

definition mapPersonal :: "env \<Rightarrow> personal \<Rightarrow> personal" where
  "mapPersonal e p =
     (let p1 = p\<lparr>preferredContactTypeId := translate preferredContactTypes (preferredContactTypeId p)\<rparr>
      in case addresses p1 of
           None \<Rightarrow> p1
         | Some as \<Rightarrow>
             if length as > 0 then p1\<lparr>addresses := Some (mapAddresses (addressTypes e) as)\<rparr>
             else p1)"

definition mapUserData :: "env \<Rightarrow> user \<Rightarrow> user" where
  "mapUserData e user =
     (let user1 = user\<lparr>patronGroup := translate (patronGroups e) (patronGroup user)\<rparr>
      in case personal user1 of
           None \<Rightarrow> user1
         | Some p \<Rightarrow> user1\<lparr>personal := Some (mapPersonal e p)\<rparr>)"

text \<open>
  The address loop also writes a warning for every address whose type is set but not
  in the table.
\<close>

datatype level = TRACE | DEBUG | INFO | WARN | ERROR

datatype event = Request request | Log level string

fun addressWarnings :: "(string \<Rightarrow> string option) \<Rightarrow> address list \<Rightarrow> event list" where
  "addressWarnings table [] = []"
| "addressWarnings table (address # rest) =
     (if truthy (addressTypeId address) \<and> \<not> truthy (table (js_string (addressTypeId address))) then
        Log WARN ''Address does not have valid address type which is mandatory. Skipping.''
          # addressWarnings table rest
      else addressWarnings table rest)"

definition mapUserData_log :: "env \<Rightarrow> user \<Rightarrow> event list" where
  "mapUserData_log e user =
     (case personal user of
        None \<Rightarrow> []
      | Some p \<Rightarrow> (case addresses p of None \<Rightarrow> [] | Some as \<Rightarrow> addressWarnings (addressTypes e) as))"

text \<open>
  \<open>mapUserData\<close> assigns to the fields of the object it is handed and returns that same
  object; it makes no copy. With the objects in a store, addressed by reference, each
  assignment of the source is an update of the store at the reference, and the
  reference is what is returned.
\<close>

type_synonym ref = nat

type_synonym store = "ref \<Rightarrow> user"

definition assign :: "ref \<Rightarrow> (user \<Rightarrow> user) \<Rightarrow> store \<Rightarrow> store" where
  "assign r f h = h(r := f (h r))"

text \<open>The three statements of \<open>mapUserData\<close>, each as a change of the store.\<close>

definition patronGroup_at :: "env \<Rightarrow> ref \<Rightarrow> store \<Rightarrow> store" where
  "patronGroup_at e r h =
     (if truthy (patronGroup (h r)) then
        (if truthy (patronGroups e (js_string (patronGroup (h r)))) then
           assign r (\<lambda>u. u\<lparr>patronGroup := patronGroups e (js_string (patronGroup (h r)))\<rparr>) h
         else assign r (\<lambda>u. u\<lparr>patronGroup := None\<rparr>) h)
      else h)"

definition preferredContactType_at :: "ref \<Rightarrow> store \<Rightarrow> store" where
  "preferredContactType_at r h =
     (case personal (h r) of
        None \<Rightarrow> h
      | Some p \<Rightarrow>
          (if truthy (preferredContactTypeId p) then
             (if truthy (preferredContactTypes (js_string (preferredContactTypeId p))) then
                assign r (\<lambda>u. u\<lparr>personal := Some (p\<lparr>preferredContactTypeId :=
                            preferredContactTypes (js_string (preferredContactTypeId p))\<rparr>)\<rparr>) h
              else assign r (\<lambda>u. u\<lparr>personal := Some (p\<lparr>preferredContactTypeId := None\<rparr>)\<rparr>) h)
           else h))"

definition addresses_at :: "env \<Rightarrow> ref \<Rightarrow> store \<Rightarrow> store" where
  "addresses_at e r h =
     (case personal (h r) of
        None \<Rightarrow> h
      | Some p \<Rightarrow>
          (case addresses p of
             None \<Rightarrow> h
           | Some as \<Rightarrow>
               if length as > 0 then
                 assign r (\<lambda>u. u\<lparr>personal := Some (p\<lparr>addresses :=
                             Some (mapAddresses (addressTypes e) as)\<rparr>)\<rparr>) h
               else h))"

definition mapUserData_at :: "env \<Rightarrow> ref \<Rightarrow> store \<Rightarrow> ref \<times> store" where
  "mapUserData_at e r h = (r, addresses_at e r (preferredContactType_at r (patronGroup_at e r h)))"

section \<open>Requests, callbacks and exceptions\<close>

text \<open>
  \<open>createRequest(method, path, accept, contenttype)\<close> builds the options of a request.
  Host, port, tenant, token and the two content headers are constants of the run and
  are left out; what \<open>req.write\<close> sends is the field \<open>written\<close>.
\<close>

definition createRequest :: "http_method \<Rightarrow> string \<Rightarrow> request" where
  "createRequest m p = \<lparr>verb = m, path = p, written = NoContent\<rparr>"

text \<open>
  How the work on one record, one page or the run ends: the callback it was given is
  called, with an error or without one; or an exception is on its way up the current
  call stack (\<open>Threw\<close>, which an enclosing \<open>try\<close> catches); or an exception has left an
  event handler, which ends the Node process (\<open>Crashed\<close>).
\<close>

datatype completion = Called "string option" | Threw string | Crashed string

type_synonym result = "event list \<times> completion"

definition emit :: "event \<Rightarrow> result \<Rightarrow> result" where
  "emit ev r = (ev # fst r, snd r)"

definition before :: "event list \<Rightarrow> result \<Rightarrow> result" where
  "before evs r = (evs @ fst r, snd r)"

text \<open>\<open>try { block } catch (e) { handler(e.message) }\<close>\<close>

definition try_catch :: "result \<Rightarrow> (string \<Rightarrow> result) \<Rightarrow> result" where
  "try_catch block handler =
     (case snd block of Threw msg \<Rightarrow> before (fst block) (handler msg) | _ \<Rightarrow> block)"

text \<open>The body of an event handler: nothing above it catches what it throws.\<close>

definition handler :: "result \<Rightarrow> result" where
  "handler r = (case snd r of Threw msg \<Rightarrow> (fst r, Crashed msg) | _ \<Rightarrow> r)"

text \<open>
  The values that reach the parameters \<open>user\<close> and \<open>callback\<close> of the functions below:
  \<open>undefined\<close> (a parameter the caller left out), the callback function that
  \<open>async.each\<close> hands to its iteratee, or a user object.
\<close>

datatype val = Undefined | Callback | Object user

text \<open>\<open>callback(err)\<close>: calling what is not a function throws a \<open>TypeError\<close>.\<close>

definition call :: "val \<Rightarrow> string option \<Rightarrow> result" where
  "call callback err =
     (case callback of Callback \<Rightarrow> ([], Called err) | _ \<Rightarrow> ([], Threw ''callback is not a function''))"

text \<open>
  \<open>user.id\<close> and \<open>user.externalSystemId\<close> on such a value: a function has neither
  property. (On \<open>undefined\<close> the read throws; \<open>deleteUser\<close> tests for that first.)
\<close>

definition id_of :: "val \<Rightarrow> string option" where
  "id_of v = (case v of Object u \<Rightarrow> userId u | _ \<Rightarrow> None)"

definition externalSystemId_of :: "val \<Rightarrow> string option" where
  "externalSystemId_of v = (case v of Object u \<Rightarrow> Some (externalSystemId u) | _ \<Rightarrow> None)"

section \<open>The steps on one record\<close>

definition deleteUser :: "env \<Rightarrow> val \<Rightarrow> val \<Rightarrow> result" where
  "deleteUser e user callback =
     (if user = Undefined then ([], Threw ''Cannot read property id of undefined'')
      else
        let req = createRequest DELETE (''/users/'' @ js_string (id_of user));
            ext = js_string (externalSystemId_of user)
        in emit (Request req)
            (case remote e req of
               NetworkError msg \<Rightarrow>
                 handler (emit (Log ERROR (''Failed to delete user with externalSystemId: '' @ ext))
                   (call callback (Some msg)))
             | Response statusCode body \<Rightarrow>
                 handler (emit (Log INFO (''User delete status: '' @ ext))
                   (try_catch
                     (if statusCode > 299 \<or> statusCode < 200 then
                        emit (Log WARN (''Failed to delete user with externalSystemId: '' @ ext))
                          (call callback (Some (''Failed to delete user with externalSystemId: '' @ ext)))
                      else emit (Log DEBUG ''User deleted successfully.'') (call callback None))
                     (\<lambda>msg. emit (Log ERROR msg) (call callback (Some msg)))))))"

text \<open>
  \<open>removeUserCredentials(user, finalCallback, callback)\<close>: \<open>callback\<close> is the function
  that \<open>applyEmptyPermissionSet\<close> passes, of three parameters \<open>(err, user, callback)\<close>.
\<close>

definition removeUserCredentials ::
    "env \<Rightarrow> user \<Rightarrow> val \<Rightarrow> (string option \<Rightarrow> val \<Rightarrow> val \<Rightarrow> result) \<Rightarrow> result" where
  "removeUserCredentials e user finalCallback callback =
     (let req = createRequest DELETE (''/authn/credentials/'' @ username user)
      in emit (Request req)
          (case remote e req of
             NetworkError msg \<Rightarrow>
               handler (emit (Log ERROR (''Failed to remove user credentials for user: '' @ username user))
                 (callback (Some msg) Undefined Undefined))
           | Response statusCode body \<Rightarrow>
               handler (emit (Log INFO (''User credentials deletion status: '' @ username user))
                 (try_catch
                   (if statusCode > 299 \<or> statusCode < 200 then
                      emit (Log WARN (''Failed to remove user credentials for user with name: '' @ username user))
                        (callback (Some (''Failed to remove user credentials for user with name: '' @ username user))
                           Undefined Undefined)
                    else emit (Log DEBUG ''User credentials removed successfully.'')
                           (callback None (Object user) finalCallback))
                   (\<lambda>msg. emit (Log ERROR (''Failed to remove credentials for user with name: ''
                                  @ username user @ '' Reason: '' @ msg))
                           (callback (Some msg) Undefined Undefined))))))"

text \<open>
  The function literal in \<open>applyEmptyPermissionSet\<close>:
  \<^verbatim>\<open>
  function(err, user, callback) {
    if(err) { callback(err); }
    else { logger.info('callback: ', callback); deleteUser(user, callback); }
  }
  \<close>
\<close>

definition afterCredentialsRemoved :: "env \<Rightarrow> string option \<Rightarrow> val \<Rightarrow> val \<Rightarrow> result" where
  "afterCredentialsRemoved e err user callback =
     (if err \<noteq> None then call callback err
      else emit (Log INFO ''callback: '') (deleteUser e user callback))"

text \<open>
  \<open>applyEmptyPermissionSet\<close> registers no \<open>error\<close> listener on its request: an \<open>error\<close>
  event with no listener is thrown.
\<close>

definition applyEmptyPermissionSet :: "env \<Rightarrow> user \<Rightarrow> val \<Rightarrow> result" where
  "applyEmptyPermissionSet e user callback =
     (let req = (createRequest POST ''/perms/users'')\<lparr>written := PermissionContent (username user) []\<rparr>
      in emit (Request req)
          (case remote e req of
             NetworkError msg \<Rightarrow> ([], Crashed msg)
           | Response statusCode body \<Rightarrow>
               handler (emit (Log INFO (''User permissions creation status: '' @ username user))
                 (try_catch
                   (if statusCode > 299 \<or> statusCode < 200 then
                      emit (Log WARN (''Failed to create user permissions for user with name: '' @ username user))
                        (emit (Log DEBUG ''Deleting user with credentials.'')
                          (removeUserCredentials e user callback (afterCredentialsRemoved e)))
                    else emit (Log DEBUG ''Permissions added successfully.'') (call callback None))
                   (\<lambda>msg. emit (Log ERROR msg) (call callback (Some msg)))))))"

text \<open>
  \<open>createCredentials\<close>: where the credentials are refused the source calls
  \<open>deleteUser(callback)\<close>, with one argument. So \<open>deleteUser\<close> gets the callback as
  its \<open>user\<close> and \<open>undefined\<close> as its \<open>callback\<close>.
\<close>

definition createCredentials :: "env \<Rightarrow> user \<Rightarrow> val \<Rightarrow> result" where
  "createCredentials e user callback =
     (let req = (createRequest POST ''/authn/credentials'')\<lparr>written := CredentialContent (username user) ''''\<rparr>
      in emit (Request req)
          (case remote e req of
             NetworkError msg \<Rightarrow>
               handler (emit (Log ERROR (''Failed to add user credentials for user: '' @ username user))
                 (call callback (Some msg)))
           | Response statusCode body \<Rightarrow>
               handler (emit (Log INFO (''User credentials creation status: '' @ username user))
                 (try_catch
                   (if statusCode > 299 \<or> statusCode < 200 then
                      emit (Log WARN (''Failed to create user credentials for user with name: '' @ username user))
                        (emit (Log DEBUG ''Deleting user.'')
                          (deleteUser e callback Undefined))
                    else emit (Log DEBUG ''User credentials created successfully. Adding empty permission set.'')
                           (applyEmptyPermissionSet e user callback))
                   (\<lambda>msg. emit (Log ERROR (''Failed to save credentials for user with name: ''
                                  @ username user @ '' Reason: '' @ msg))
                           (call callback (Some msg)))))))"

text \<open>
  \<open>createUser\<close>: \<open>user.id = uuidv1()\<close>, then \<open>mapUserData\<close>, then the request. \<open>k\<close>
  counts the calls of \<open>uuidv1()\<close> made before this one.
\<close>

definition createUser :: "env \<Rightarrow> nat \<Rightarrow> user \<Rightarrow> val \<Rightarrow> result" where
  "createUser e k user0 callback =
     (let user = mapUserData e (user0\<lparr>userId := Some (uuidv1 e k)\<rparr>);
          req = (createRequest POST ''/users'')\<lparr>written := UserContent user\<rparr>
      in before (mapUserData_log e user0)
          (emit (Request req)
            (case remote e req of
               NetworkError msg \<Rightarrow>
                 handler (emit (Log ERROR (''Failed to create user with externalSystemId: '' @ externalSystemId user))
                   (call callback (Some msg)))
             | Response statusCode body \<Rightarrow>
                 handler (emit (Log INFO (''User create status: '' @ externalSystemId user))
                   (try_catch
                     (if statusCode > 299 \<or> statusCode < 200 then
                        emit (Log WARN (''Failed to create user with externalSystemId: '' @ externalSystemId user))
                          (call callback None)
                      else emit (Log DEBUG ''Created user successfully. Creating credentials.'')
                             (createCredentials e user callback))
                     (\<lambda>msg. emit (Log ERROR msg) (call callback (Some msg))))))))"

definition updateUser :: "env \<Rightarrow> user \<Rightarrow> val \<Rightarrow> result" where
  "updateUser e user0 callback =
     (let user = mapUserData e user0;
          req = (createRequest PUT (''/users/'' @ js_string (userId user)))\<lparr>written := UserContent user\<rparr>
      in before (mapUserData_log e user0)
          (emit (Request req)
            (case remote e req of
               NetworkError msg \<Rightarrow>
                 handler (emit (Log ERROR (''Failed to update user with externalSystemId: '' @ externalSystemId user))
                   (call callback (Some msg)))
             | Response statusCode body \<Rightarrow>
                 handler (emit (Log INFO (''User update status: '' @ externalSystemId user))
                   (try_catch
                     (if statusCode > 299 \<or> statusCode < 200 then
                        emit (Log WARN (''Failed to update user with externalSystemId: '' @ externalSystemId user))
                          (emit (Log DEBUG ''User data: '') (call callback None))
                      else call callback None)
                     (\<lambda>msg. emit (Log ERROR (''Failed to update user with externalSystemId: ''
                                    @ externalSystemId user @ '' Reason: '' @ msg))
                             (call callback (Some msg))))))))"

section \<open>One page: \<open>searchUsers\<close> and \<open>importUsers\<close>\<close>

text \<open>
  \<open>importUsers\<close> first keys the page by \<open>externalSystemId\<close>:
  \<^verbatim>\<open>
  let userMap = userList.reduce(function (map, obj) {
    map[obj.externalSystemId] = obj; return map; }, {});
  \<close>
  An assignment to a key that is already there replaces the value and keeps the key's
  place; a new key goes to the end. (JavaScript moves keys that read as integers to the
  front; the order of the keys only decides in which order the requests of a page are
  started.)
\<close>

definition userMap_of :: "user list \<Rightarrow> (string \<times> user) list" where
  "userMap_of userList = foldl (\<lambda>map obj. AList.update (externalSystemId obj) obj map) [] userList"

text \<open>
  \<^verbatim>\<open>
  existingUsers.forEach(function (user) {
    let userToUpdate = userMap[user.externalSystemId];
    if (userToUpdate) { userToUpdate.id = user.id; }
  });
  \<close>
\<close>

definition assignIds :: "(string \<times> user) list \<Rightarrow> user list \<Rightarrow> (string \<times> user) list" where
  "assignIds userMap existingUsers =
     foldl (\<lambda>map user.
              case map_of map (externalSystemId user) of
                None \<Rightarrow> map
              | Some userToUpdate \<Rightarrow>
                  AList.update (externalSystemId user) (userToUpdate\<lparr>userId := userId user\<rparr>) map)
           userMap existingUsers"

text \<open>The records that \<open>async.each\<close> goes through: the values of \<open>userMap\<close>.\<close>

definition dispatched :: "user list \<Rightarrow> user list \<Rightarrow> user list" where
  "dispatched userList existingUsers = map snd (assignIds (userMap_of userList) existingUsers)"

text \<open>
  \<open>async.each\<close> calls the iteratee on every record at once, in order; \<open>createUser\<close>
  draws its id at that moment. \<open>number\<close> pairs each record with the count of
  \<open>uuidv1()\<close> calls made before its turn.
\<close>

fun number :: "nat \<Rightarrow> user list \<Rightarrow> (nat \<times> user) list" where
  "number n [] = []"
| "number n (user # rest) = (n, user) # number (if truthy (userId user) then n else Suc n) rest"

text \<open>
  \<^verbatim>\<open>
  function (user, userCallback) {
    if (user.id) { updateUser(user, userCallback); } else { createUser(user, userCallback); }
  }
  \<close>
\<close>

definition iteratee :: "env \<Rightarrow> nat \<times> user \<Rightarrow> result" where
  "iteratee e ku =
     (if truthy (userId (snd ku)) then updateUser e (snd ku) Callback
      else createUser e (fst ku) (snd ku) Callback)"

text \<open>
  What \<open>async.each\<close> hands to its final callback: the first error that an iteratee
  passed, or none once all have called back. An error does not stop the records that
  were started. The requests of the records of a page interleave in the program; here
  each record's events are listed after those of the record before it. Once the
  process has crashed nothing follows.
\<close>

fun each :: "result list \<Rightarrow> result" where
  "each [] = ([], Called None)"
| "each (r # rs) =
     (case snd r of
        Called err \<Rightarrow>
          (case snd (each rs) of
             Called err' \<Rightarrow> (fst r @ fst (each rs), Called (if err = None then err' else err))
           | c \<Rightarrow> (fst r @ fst (each rs), c))
      | c \<Rightarrow> r)"

text \<open>What follows once a callback has been called: \<open>k\<close> is the body of that callback.\<close>

definition and_then :: "result \<Rightarrow> (string option \<Rightarrow> result) \<Rightarrow> result" where
  "and_then r k = (case snd r of Called err \<Rightarrow> before (fst r) (k err) | _ \<Rightarrow> r)"

text \<open>
  \<open>existingUsers\<close> is \<open>userSearchResult.users\<close>; where the answer has no such field,
  \<open>existingUsers.forEach\<close> throws.
\<close>

definition importUsers :: "env \<Rightarrow> nat \<Rightarrow> user list \<Rightarrow> user list option \<Rightarrow> val \<Rightarrow> result \<times> nat" where
  "importUsers e n userList existingUsers callback =
     (case existingUsers of
        None \<Rightarrow> (([], Threw ''Cannot read property forEach of undefined''), n)
      | Some existing \<Rightarrow>
          (emit (Log TRACE ''Updated existing users with ids.'')
             (handler
               (and_then (each (map (iteratee e) (number n (dispatched userList existing))))
                  (\<lambda>err. if err \<noteq> None then
                            emit (Log INFO ''Failed to import user batch.'') (call callback err)
                          else emit (Log DEBUG ''Imported user batch successfully.'') (call callback None)))),
           n + length (filter (\<lambda>u. \<not> truthy (userId u)) (dispatched userList existing))))"

text \<open>
  The query of \<open>searchUsers\<close>:
  \<^verbatim>\<open>
  let queryPath = '(';
  for (let i = 0; i < userList.length; i++) {
    queryPath += 'externalSystemId=="' + userList[i].externalSystemId + '"';
    if (i < userList.length - 1) { queryPath += ' or '; } else { queryPath += ')'; }
  }
  \<close>
  The percent-encoding of the query by \<open>encodeURIComponent\<close> is left out.
\<close>

fun queryTerms :: "user list \<Rightarrow> string" where
  "queryTerms [] = []"
| "queryTerms [u] = ''externalSystemId=='' @ [CHR 0x22] @ externalSystemId u @ [CHR 0x22] @ '')''"
| "queryTerms (u # v # rest) =
     ''externalSystemId=='' @ [CHR 0x22] @ externalSystemId u @ [CHR 0x22] @ '' or '' @ queryTerms (v # rest)"

definition queryPath :: "user list \<Rightarrow> string" where
  "queryPath userList = ''('' @ queryTerms userList"

definition searchRequest :: "user list \<Rightarrow> request" where
  "searchRequest userList = createRequest GET (''/users?query='' @ queryPath userList)"

text \<open>
  \<open>searchUsers\<close> tests \<open>response.status\<close>. The answer object of Node's \<open>http\<close> has a
  field \<open>statusCode\<close> and no field \<open>status\<close>, so the value tested is \<open>undefined\<close>, and a
  comparison of \<open>undefined\<close> with a number is false.
\<close>

definition response_status :: "int \<Rightarrow> int option" where
  "response_status statusCode = None"

definition js_less :: "int option \<Rightarrow> int option \<Rightarrow> bool" where
  "js_less a b = (case a of None \<Rightarrow> False | Some x \<Rightarrow> (case b of None \<Rightarrow> False | Some y \<Rightarrow> x < y))"

definition searchUsers :: "env \<Rightarrow> nat \<Rightarrow> user list \<Rightarrow> val \<Rightarrow> result \<times> nat" where
  "searchUsers e n userList callback =
     (let req = searchRequest userList
      in case remote e req of
           NetworkError msg \<Rightarrow>
             (emit (Request req)
                (handler (emit (Log ERROR (''Failed to list existing users with query: '' @ queryPath userList))
                   (call callback (Some msg)))), n)
         | Response statusCode body \<Rightarrow>
             (let block =
                    (if js_less (response_status statusCode) (Some 200)
                        \<or> js_less (Some 299) (response_status statusCode) then
                       (emit (Log WARN ''Failed to list existing users '')
                          (call callback (Some (''Failed to list existing users with query: '' @ queryPath userList))), n)
                     else
                       (case body of
                          Unparseable \<Rightarrow> (([], Threw ''Unexpected token in JSON''), n)
                        | Json users \<Rightarrow> importUsers e n userList users callback))
              in (emit (Request req)
                    (handler (try_catch (fst block)
                       (\<lambda>msg. emit (Log ERROR (''Failed to list and import existing users with query: ''
                                      @ queryPath userList))
                               (call callback (Some msg))))),
                  snd block)))"

section \<open>The run: \<open>processUsers\<close>\<close>

text \<open>
  \<open>async.eachLimit(userData, 1, searchUsers, final)\<close>: one page after the other; the
  first page whose callback gets an error ends the iteration, and \<open>final\<close> gets that
  error.
\<close>

fun eachLimit :: "env \<Rightarrow> nat \<Rightarrow> user list list \<Rightarrow> result" where
  "eachLimit e n [] = ([], Called None)"
| "eachLimit e n (userList # rest) =
     (case snd (fst (searchUsers e n userList Callback)) of
        Called None \<Rightarrow>
          before (fst (fst (searchUsers e n userList Callback)))
            (eachLimit e (snd (searchUsers e n userList Callback)) rest)
      | c \<Rightarrow> fst (searchUsers e n userList Callback))"

text \<open>
  \<open>processUsers\<close>: the input text is a JSON list of users or is not
  (\<open>process.exit()\<close>); the paging loop may not end (\<open>None\<close>).
\<close>

datatype run = Exited | Ended result

definition processUsers :: "env \<Rightarrow> user list option \<Rightarrow> run option" where
  "processUsers e usersData =
     (case usersData of
        None \<Rightarrow> Some Exited
      | Some data \<Rightarrow>
          (case pages (folioPageSize e) data [] of
             None \<Rightarrow> None
           | Some userData \<Rightarrow>
               Some (Ended (and_then (eachLimit e 0 userData)
                 (\<lambda>err. if err \<noteq> None then ([Log ERROR ''Failed to import all users.''], Called err)
                         else ([Log INFO ''Import has finished. See log for failed users.''], Called None))))))"

text \<open>The requests among the events, in order.\<close>

fun requests :: "event list \<Rightarrow> request list" where
  "requests [] = []"
| "requests (Request r # evs) = r # requests evs"
| "requests (Log l m # evs) = requests evs"

section \<open>Names for the requests and answers\<close>



text \<open>The requests that the steps on a record send, as the definitions above build them.\<close>

definition createUserRequest :: "env \<Rightarrow> nat \<Rightarrow> user \<Rightarrow> request" where
  "createUserRequest e k u =
     (createRequest POST ''/users'')\<lparr>written := UserContent (mapUserData e (u\<lparr>userId := Some (uuidv1 e k)\<rparr>))\<rparr>"

definition updateUserRequest :: "env \<Rightarrow> user \<Rightarrow> request" where
  "updateUserRequest e u =
     (createRequest PUT (''/users/'' @ js_string (userId u)))\<lparr>written := UserContent (mapUserData e u)\<rparr>"

definition credentialsRequest :: "user \<Rightarrow> request" where
  "credentialsRequest u = (createRequest POST ''/authn/credentials'')\<lparr>written := CredentialContent (username u) ''''\<rparr>"

definition permissionsRequest :: "user \<Rightarrow> request" where
  "permissionsRequest u = (createRequest POST ''/perms/users'')\<lparr>written := PermissionContent (username u) []\<rparr>"

definition deleteCredentialsRequest :: "user \<Rightarrow> request" where
  "deleteCredentialsRequest u = createRequest DELETE (''/authn/credentials/'' @ username u)"

definition deleteUserRequest :: "string option \<Rightarrow> request" where
  "deleteUserRequest v = createRequest DELETE (''/users/'' @ js_string v)"


text \<open>The requests of a whole run, where it ends.\<close>

definition run_requests :: "run option \<Rightarrow> request list option" where
  "run_requests r =
     (case r of None \<Rightarrow> None | Some Exited \<Rightarrow> Some [] | Some (Ended x) \<Rightarrow> Some (requests (fst x)))"

text \<open>
  What the loop over \<open>existingUsers\<close> makes of one record \<open>x\<close> of the page: each
  returned record with the external id of \<open>x\<close> overwrites the id of \<open>x\<close>, so the last
  of them stays.
\<close>

fun withIds :: "user list \<Rightarrow> user \<Rightarrow> user" where
  "withIds [] x = x"
| "withIds (r # rest) x =
     withIds rest (if externalSystemId r = externalSystemId x then x\<lparr>userId := userId r\<rparr> else x)"

text \<open>
  An answer to the search that \<open>searchUsers\<close> cannot read: text that is not JSON, or
  JSON without the field \<open>users\<close>.
\<close>

definition unreadable :: "response \<Rightarrow> bool" where
  "unreadable r =
     (case r of
        Response statusCode body \<Rightarrow> (case body of Unparseable \<Rightarrow> True | Json users \<Rightarrow> users = None)
      | NetworkError msg \<Rightarrow> False)"


section \<open>Sample records, tables and services\<close>

text \<open>
  The inputs at which the theorems below are evaluated: two records without an id, one
  that brings its own id, the tables of a run, and services that answer by method and
  path.
\<close>

definition alice :: user where
  "alice = \<lparr>userId = None, externalSystemId = ''A'', username = ''alice'',
            patronGroup = Some ''staff'',
            personal = Some \<lparr>preferredContactTypeId = Some ''email'',
                             addresses = Some [\<lparr>addressTypeId = Some ''Home'', street = ''Main St 1''\<rparr>,
                                               \<lparr>addressTypeId = Some ''Igloo'', street = ''North Pole''\<rparr>]\<rparr>\<rparr>"

definition bob :: user where
  "bob = \<lparr>userId = None, externalSystemId = ''B'', username = ''bob'',
          patronGroup = None, personal = None\<rparr>"


text \<open>
  A service that answers a search with \<open>found\<close>, and every other request with a status
  chosen by method and path: \<open>create\<close> for \<open>POST /users\<close>, \<open>credentials\<close> for
  \<open>POST /authn/credentials\<close>, \<open>permissions\<close> for \<open>POST /perms/users\<close>, \<open>update\<close> for
  \<open>PUT\<close>, \<open>unCredentials\<close> for \<open>DELETE /authn/credentials/...\<close> and \<open>unUser\<close> for
  \<open>DELETE /users/...\<close>.
\<close>

record statuses =
  create :: int
  credentials :: int
  permissions :: int
  update :: int
  unCredentials :: int
  unUser :: int

definition service :: "rawData \<Rightarrow> statuses \<Rightarrow> request \<Rightarrow> response" where
  "service found s req =
     (case verb req of
        GET \<Rightarrow> Response 200 found
      | POST \<Rightarrow>
          (if path req = ''/users'' then Response (create s) Unparseable
           else if path req = ''/authn/credentials'' then Response (credentials s) Unparseable
           else Response (permissions s) Unparseable)
      | PUT \<Rightarrow> Response (update s) Unparseable
      | DELETE \<Rightarrow>
          (if take 7 (path req) = ''/users/'' then Response (unUser s) Unparseable
           else Response (unCredentials s) Unparseable))"

definition all_fine :: statuses where
  "all_fine = \<lparr>create = 201, credentials = 201, permissions = 201, update = 204,
               unCredentials = 204, unUser = 204\<rparr>"

definition sample_env :: "rawData \<Rightarrow> statuses \<Rightarrow> env" where
  "sample_env found s =
     \<lparr>remote = service found s,
      uuidv1 = (\<lambda>k. ''uuid-'' @ replicate (Suc k) CHR ''i''),
      patronGroups = [''staff'' \<mapsto> ''g-7''],
      addressTypes = [''Home'' \<mapsto> ''t-1''],
      folioPageSize = 1\<rparr>"

text \<open>A store that holds \<open>alice\<close> at reference \<open>0\<close> and \<open>bob\<close> everywhere else.\<close>

definition sample_store :: store where
  "sample_store = (\<lambda>r. bob)(0 := alice)"


definition dora :: user where
  "dora = \<lparr>userId = None, externalSystemId = ''D'', username = ''dora'',
           patronGroup = Some ''staff'',
           personal = Some \<lparr>preferredContactTypeId = Some ''fax'',
                            addresses = Some [\<lparr>addressTypeId = Some ''Home'', street = ''Main St 4''\<rparr>,
                                              \<lparr>addressTypeId = None, street = ''nowhere''\<rparr>]\<rparr>\<rparr>"




text \<open>
  A service that answers one search, the one with path \<open>p\<close>, with text that is not
  JSON, and everything else like \<open>service\<close>.
\<close>

definition service_but :: "string \<Rightarrow> rawData \<Rightarrow> statuses \<Rightarrow> request \<Rightarrow> response" where
  "service_but p found s req =
     (if verb req = GET \<and> path req = p then Response 200 Unparseable else service found s req)"

definition garbled_env :: env where
  "garbled_env =
     \<lparr>remote = service_but (path (searchRequest [bob])) (Json (Some [])) all_fine,
      uuidv1 = (\<lambda>k. ''uuid-'' @ replicate (Suc k) CHR ''i''),
      patronGroups = [''staff'' \<mapsto> ''g-7''],
      addressTypes = [''Home'' \<mapsto> ''t-1''],
      folioPageSize = 1\<rparr>"

section \<open>Properties of the paging loop\<close>

lemma ceiling_div_nat:
  assumes "0 < (k::nat)"
  shows "\<lceil>real n / real k\<rceil> = int ((n + k - 1) div k)"
proof -
  define q where "q = (n + k - 1) div k"
  have lo: "q * k \<le> n + k - 1" unfolding q_def by simp
  have "n + k - 1 < q * k + k" unfolding q_def
    using assms by (metis add.commute dividend_less_times_div mult.commute)
  then have hi: "n \<le> q * k" using assms by linarith
  have rk: "0 < real k" using assms by simp
  have a: "real n / real k \<le> real q"
    using hi rk by (simp add: divide_le_eq flip: of_nat_mult)
  have "q * k < n + k" using lo assms by linarith
  then have "real (q * k) < real (n + k)" by (simp only: of_nat_less_iff)
  then have b: "real q - 1 < real n / real k"
    using rk by (simp add: less_divide_eq algebra_simps)
  show ?thesis unfolding q_def[symmetric]
    using a b by (intro ceiling_unique) auto
qed

lemma small_div_one:
  assumes "0 < (n::nat)" "n < k"
  shows "(n + k - 1) div k = 1"
  using assms by (intro div_nat_eqI) auto

lemma pages_acc:
  assumes "0 < p"
  shows "\<exists>bs. pages p data acc = Some (acc @ bs) \<and> concat bs = data
            \<and> length bs = (length data + nat p - 1) div nat p
            \<and> (\<forall>b \<in> set (butlast bs). length b = nat p)
            \<and> (\<forall>b \<in> set bs. b \<noteq> [] \<and> length b \<le> nat p)"
proof (induction "length data" arbitrary: data acc rule: less_induct)
  case less
  show ?case
  proof (cases "data = []")
    case True
    then show ?thesis using assms by (subst pages.simps) simp
  next
    case False
    let ?k = "nat p"
    have k: "0 < ?k" using assms by simp
    have "length (drop ?k data) < length data" using False k by simp
    from less[OF this, of "acc @ [take ?k data]"]
    obtain bs where bs:
      "pages p (drop ?k data) (acc @ [take ?k data]) = Some ((acc @ [take ?k data]) @ bs)"
      "concat bs = drop ?k data"
      "length bs = (length (drop ?k data) + ?k - 1) div ?k"
      "\<forall>b \<in> set (butlast bs). length b = ?k"
      "\<forall>b \<in> set bs. b \<noteq> [] \<and> length b \<le> ?k"
      by blast
    let ?bs = "take ?k data # bs"
    have 1: "pages p data acc = Some (acc @ ?bs)"
      using False bs(1) by (subst pages.simps) (simp add: splice0_def)
    have 2: "concat ?bs = data" using bs(2) by simp
    have 3: "length ?bs = (length data + ?k - 1) div ?k"
    proof (cases "?k \<le> length data")
      case True
      then have "length data + ?k - 1 = (length data - ?k + ?k - 1) + ?k" using k by simp
      then have "(length data + ?k - 1) div ?k = (length data - ?k + ?k - 1) div ?k + 1"
        using k by (metis div_add_self2 less_numeral_extra(3))
      then show ?thesis using bs(3) by simp
    next
      case F: False
      have "0 < length data" using False by simp
      then have "(length data + ?k - 1) div ?k = 1" using F by (intro small_div_one) auto
      then show ?thesis using bs(3) F k by simp
    qed
    have 4: "\<forall>b \<in> set (butlast ?bs). length b = ?k"
    proof (cases "bs = []")
      case True then show ?thesis by simp
    next
      case F: False
      then have "drop ?k data \<noteq> []" using bs(2) bs(5) by (cases bs) auto
      then have "length (take ?k data) = ?k" by simp
      then show ?thesis using bs(4) F by simp
    qed
    have 5: "\<forall>b \<in> set ?bs. b \<noteq> [] \<and> length b \<le> ?k" using bs(5) False k by auto
    show ?thesis using 1 2 3 4 5 by blast
  qed
qed

lemma pages_returns_only_on_empty_aux:
  "pages p data acc = Some y \<Longrightarrow> p \<le> 0 \<longrightarrow> data = []"
  by (rule pages.raw_induct[where P = "\<lambda>p data acc y. p \<le> 0 \<longrightarrow> data = []"])
     (auto simp: splice0_def split: if_splits)

lemma pages_returns_only_on_empty:
  assumes "pages p data acc = Some y" and "p \<le> 0"
  shows "data = []"
  using pages_returns_only_on_empty_aux[OF assms(1)] assms(2) by simp

text \<open>
  Claim C5. For a page size \<open>p > 0\<close> and a list of \<open>n\<close> records the loop ends and
  leaves \<open>\<lceil>n / p\<rceil>\<close> pages; every page but the last holds exactly \<open>p\<close> records (the
  last is not empty and holds at most \<open>p\<close>); the pages in order, joined, are the input.
\<close>

theorem pages_partition:
  assumes "0 < p"
  shows "\<exists>bs. pages p data [] = Some bs
            \<and> int (length bs) = \<lceil>real (length data) / real_of_int p\<rceil>
            \<and> (\<forall>b \<in> set (butlast bs). int (length b) = p)
            \<and> (\<forall>b \<in> set bs. b \<noteq> [] \<and> int (length b) \<le> p)
            \<and> concat bs = data"
proof -
  from pages_acc[OF assms, of data "[]"]
  obtain bs where bs: "pages p data [] = Some bs" "concat bs = data"
      "length bs = (length data + nat p - 1) div nat p"
      "\<forall>b \<in> set (butlast bs). length b = nat p"
      "\<forall>b \<in> set bs. b \<noteq> [] \<and> length b \<le> nat p"
    by auto
  have "\<lceil>real (length data) / real (nat p)\<rceil> = int (length bs)"
    using ceiling_div_nat[of "nat p" "length data"] assms bs(3) by simp
  moreover have "real (nat p) = real_of_int p" using assms by simp
  ultimately have len: "int (length bs) = \<lceil>real (length data) / real_of_int p\<rceil>" by simp
  have full: "\<forall>b \<in> set (butlast bs). int (length b) = p" using bs(4) assms by simp
  have part: "\<forall>b \<in> set bs. b \<noteq> [] \<and> int (length b) \<le> p" using bs(5) assms by auto
  show ?thesis using bs(1) bs(2) len full part by blast
qed

theorem pages_partition_witness:
  "(0::int) < 2 \<and> pages 2 [1, 2, 3, 4, 5 :: nat] [] = Some [[1, 2], [3, 4], [5]]
     \<and> \<lceil>real (length [1, 2, 3, 4, 5 :: nat]) / real_of_int 2\<rceil> = 3"
proof -
  have p: "(0::int) < 2" by simp
  have e: "pages 2 [1, 2, 3, 4, 5 :: nat] [] = Some [[1, 2], [3, 4], [5]]" by code_simp
  from pages_partition[OF p, of "[1, 2, 3, 4, 5 :: nat]"]
  have "int (length [[1, 2], [3, 4], [5 :: nat]]) = \<lceil>real (length [1, 2, 3, 4, 5 :: nat]) / real_of_int 2\<rceil>"
    unfolding e by auto
  then show ?thesis using p e by simp
qed

text \<open>
  Claim C6, as stated, fails: the loop validates nothing. With page size \<open>0\<close> and one
  record it never ends, so the run neither reports an error nor returns.
\<close>

theorem pages_zero_counterexample:
  "pages 0 [bob] [] = None
   \<and> processUsers ((sample_env (Json (Some [])) all_fine)\<lparr>folioPageSize := 0\<rparr>) (Some [bob]) = None"
proof -
  have "pages 0 [bob] [] = None"
  proof (cases "pages 0 [bob] []")
    case None then show ?thesis .
  next
    case (Some y)
    from pages_returns_only_on_empty[OF this] have "[bob] = []" by simp
    then show ?thesis by simp
  qed
  then show ?thesis by (simp add: processUsers_def sample_env_def)
qed

text \<open>
  Claim C6, amended. For a page size \<open>p \<le> 0\<close> the loop returns no pages and no error
  when the list is empty, and never returns when the list holds a record.
\<close>

theorem pages_nonpositive:
  assumes "p \<le> 0"
  shows "pages p data [] = (if data = [] then Some [] else None)"
proof (cases "data = []")
  case True
  then show ?thesis by (subst pages.simps) simp
next
  case False
  have "pages p data [] = None"
  proof (cases "pages p data []")
    case None then show ?thesis .
  next
    case (Some y)
    from pages_returns_only_on_empty[OF this assms] False show ?thesis by simp
  qed
  then show ?thesis using False by simp
qed

theorem pages_nonpositive_witness:
  "(-1::int) \<le> 0 \<and> pages (-1) [CHR ''a'', CHR ''b''] [] = None \<and> pages (-1) ([]::char list) [] = Some []"
  using pages_nonpositive[of "-1" "[CHR ''a'', CHR ''b'']"] pages_nonpositive[of "-1" "[]::char list"]
  by simp

section \<open>Properties of \<open>mapUserData\<close>\<close>





lemma patronGroup_at_eq:
  "patronGroup_at e r h = h(r := (h r)\<lparr>patronGroup := translate (patronGroups e) (patronGroup (h r))\<rparr>)"
  by (simp add: patronGroup_at_def translate_def assign_def fun_eq_iff)

lemma preferredContactType_at_eq:
  "preferredContactType_at r h =
     (case personal (h r) of
        None \<Rightarrow> h
      | Some p \<Rightarrow> h(r := (h r)\<lparr>personal := Some (p\<lparr>preferredContactTypeId :=
                      translate preferredContactTypes (preferredContactTypeId p)\<rparr>)\<rparr>))"
proof (cases "personal (h r)")
  case None
  then show ?thesis by (simp add: preferredContactType_at_def)
next
  case (Some p)
  have same: "(h r)\<lparr>personal := Some (p\<lparr>preferredContactTypeId := preferredContactTypeId p\<rparr>)\<rparr> = h r"
    using Some by simp
  show ?thesis
    using Some same by (simp add: preferredContactType_at_def translate_def assign_def fun_eq_iff)
qed

lemma addresses_at_eq:
  "addresses_at e r h =
     (case personal (h r) of
        None \<Rightarrow> h
      | Some p \<Rightarrow>
          (case addresses p of
             None \<Rightarrow> h
           | Some as \<Rightarrow>
               if length as > 0 then
                 h(r := (h r)\<lparr>personal := Some (p\<lparr>addresses := Some (mapAddresses (addressTypes e) as)\<rparr>)\<rparr>)
               else h))"
  by (simp add: addresses_at_def assign_def split: option.splits)

lemma mapUserData_at_eq: "mapUserData_at e r h = (r, h(r := mapUserData e (h r)))"
proof (cases "personal (h r)")
  case None
  then show ?thesis
    by (simp add: mapUserData_at_def patronGroup_at_eq preferredContactType_at_eq addresses_at_eq
        mapUserData_def)
next
  case (Some p)
  show ?thesis
  proof (cases "addresses p")
    case None
    with Some show ?thesis
      by (simp add: mapUserData_at_def patronGroup_at_eq preferredContactType_at_eq addresses_at_eq
          mapUserData_def mapPersonal_def)
  next
    case (Some as)
    with \<open>personal (h r) = Some p\<close> show ?thesis
      by (simp add: mapUserData_at_def patronGroup_at_eq preferredContactType_at_eq addresses_at_eq
          mapUserData_def mapPersonal_def)
  qed
qed




text \<open>
  Claim C9, as stated, fails: the record that was handed in is itself rewritten. After
  the call the object at the reference has the translated patron group and has lost
  the address with the unknown type.
\<close>

theorem mapUserData_frame_counterexample:
  "sample_store 0 = alice
   \<and> snd (mapUserData_at (sample_env Unparseable all_fine) 0 sample_store) 0
     = alice\<lparr>patronGroup := Some ''g-7'',
            personal := Some \<lparr>preferredContactTypeId = Some ''002'',
               addresses = Some [\<lparr>addressTypeId = Some ''t-1'', street = ''Main St 1''\<rparr>]\<rparr>\<rparr>
   \<and> snd (mapUserData_at (sample_env Unparseable all_fine) 0 sample_store) 0 \<noteq> sample_store 0"
  by (simp add: mapUserData_at_eq sample_store_def mapUserData_def mapPersonal_def translate_def
      truthy_def js_string_def sample_env_def alice_def preferredContactTypes_def)

text \<open>
  Claim C9, amended. \<open>mapUserData\<close> makes no copy: it returns the reference it was
  given, and after the call the object at that reference is the translated record. No
  other object of the store is touched, and of the record's own fields \<open>id\<close>,
  \<open>externalSystemId\<close> and \<open>username\<close> keep their values.
\<close>

theorem mapUserData_in_place:
  "fst (mapUserData_at e r h) = r
   \<and> snd (mapUserData_at e r h) = h(r := mapUserData e (h r))
   \<and> userId (snd (mapUserData_at e r h) r) = userId (h r)
   \<and> externalSystemId (snd (mapUserData_at e r h) r) = externalSystemId (h r)
   \<and> username (snd (mapUserData_at e r h) r) = username (h r)"
  by (simp add: mapUserData_at_eq mapUserData_def Let_def split: option.splits)

section \<open>The steps on one record: compensation\<close>

lemmas step_defs = createUser_def createCredentials_def applyEmptyPermissionSet_def
  removeUserCredentials_def afterCredentialsRemoved_def deleteUser_def updateUser_def
  emit_def before_def try_catch_def handler_def call_def createRequest_def
  id_of_def externalSystemId_of_def Let_def

lemmas request_defs = createUserRequest_def updateUserRequest_def credentialsRequest_def
  permissionsRequest_def deleteCredentialsRequest_def deleteUserRequest_def createRequest_def

lemma requests_append [simp]: "requests (xs @ ys) = requests xs @ requests ys"
  by (induction xs rule: requests.induct) auto

lemma requests_addressWarnings [simp]: "requests (addressWarnings t as) = []"
  by (induction as) auto

lemma requests_mapUserData_log [simp]: "requests (mapUserData_log e u) = []"
  by (simp add: mapUserData_log_def split: option.splits)

lemma username_mapUserData [simp]: "username (mapUserData e u) = username u"
  by (simp add: mapUserData_def Let_def split: option.splits)

lemma userId_mapUserData [simp]: "userId (mapUserData e u) = userId u"
  by (simp add: mapUserData_def Let_def split: option.splits)

lemma externalSystemId_mapUserData [simp]: "externalSystemId (mapUserData e u) = externalSystemId u"
  by (simp add: mapUserData_def Let_def split: option.splits)








text \<open>
  Claim C2. Where the credentials are refused, \<open>createCredentials\<close> calls
  \<open>deleteUser(callback)\<close>: the delete goes to \<open>/users/undefined\<close>, not to the id of the
  record just created, and the call of the missing callback ends the process.
\<close>

theorem credential_failure_deletes_undefined:
  "requests (fst (createUser (sample_env (Json (Some [])) (all_fine\<lparr>credentials := 500\<rparr>)) 0 bob Callback))
   = [\<lparr>verb = POST, path = ''/users'',
        written = UserContent (bob\<lparr>userId := Some ''uuid-i''\<rparr>)\<rparr>,
      \<lparr>verb = POST, path = ''/authn/credentials'', written = CredentialContent ''bob'' []\<rparr>,
      \<lparr>verb = DELETE, path = ''/users/undefined'', written = NoContent\<rparr>]
   \<and> snd (createUser (sample_env (Json (Some [])) (all_fine\<lparr>credentials := 500\<rparr>)) 0 bob Callback)
       = Crashed ''callback is not a function''"
  by (simp add: step_defs sample_env_def service_def all_fine_def bob_def mapUserData_def
      mapUserData_log_def translate_def truthy_def js_string_def)

section \<open>Keying a page and assigning ids\<close>

lemma externalSystemId_withIds [simp]: "externalSystemId (withIds ex x) = externalSystemId x"
  by (induction ex arbitrary: x) auto

























section \<open>Pages and the run\<close>

lemma requests_before [simp]: "requests (fst (before evs r)) = requests evs @ requests (fst r)"
  by (simp add: before_def)

lemma snd_before [simp]: "snd (before evs r) = snd r"
  by (simp add: before_def)

lemma requests_concat: "requests (concat (map f xs)) = concat (map (\<lambda>x. requests (f x)) xs)"
  by (induction xs) simp_all

lemma each_all_called:
  assumes "\<forall>r \<in> set rs. \<exists>err. snd r = Called err"
  shows "fst (each rs) = concat (map fst rs)
       \<and> (\<exists>err. snd (each rs) = Called err)
       \<and> (snd (each rs) = Called None \<longleftrightarrow> (\<forall>r \<in> set rs. snd r = Called None))"
  using assms
proof (induction rs)
  case Nil
  then show ?case by simp
next
  case (Cons r rs)
  from Cons.prems obtain err where r: "snd r = Called err" by auto
  from Cons.prems have "\<forall>r \<in> set rs. \<exists>err. snd r = Called err" by simp
  from Cons.IH[OF this] obtain err' where ih: "fst (each rs) = concat (map fst rs)"
    "snd (each rs) = Called err'" "(err' = None) = (\<forall>r \<in> set rs. snd r = Called None)"
    by auto
  show ?case using r ih by auto
qed

lemma importUsers_all_called:
  assumes "\<forall>ku \<in> set (number n (dispatched b ex)). \<exists>err. snd (iteratee e ku) = Called err"
  shows "requests (fst (fst (importUsers e n b (Some ex) Callback)))
           = concat (map (\<lambda>ku. requests (fst (iteratee e ku))) (number n (dispatched b ex)))
       \<and> (\<exists>err. snd (fst (importUsers e n b (Some ex) Callback)) = Called err)
       \<and> (snd (fst (importUsers e n b (Some ex) Callback)) = Called None
            \<longleftrightarrow> (\<forall>ku \<in> set (number n (dispatched b ex)). snd (iteratee e ku) = Called None))"
proof -
  let ?rs = "map (iteratee e) (number n (dispatched b ex))"
  have "\<forall>r \<in> set ?rs. \<exists>err. snd r = Called err" using assms by auto
  from each_all_called[OF this] obtain err where ea: "fst (each ?rs) = concat (map fst ?rs)"
    "snd (each ?rs) = Called err" "(err = None) = (\<forall>r \<in> set ?rs. snd r = Called None)"
    by auto
  have rq': "requests (concat (map (\<lambda>x. fst (iteratee e x)) (number n (dispatched b ex))))
      = concat (map (\<lambda>ku. requests (fst (iteratee e ku))) (number n (dispatched b ex)))"
    by (rule requests_concat)
  show ?thesis
    using ea rq'
    by (cases err)
       (simp_all add: importUsers_def and_then_def emit_def before_def handler_def call_def comp_def)
qed

lemma searchUsers_read:
  assumes "remote e (searchRequest b) = Response c (Json (Some ex))"
  shows "searchUsers e n b Callback
       = (emit (Request (searchRequest b))
            (handler (try_catch (fst (importUsers e n b (Some ex) Callback))
               (\<lambda>msg. emit (Log ERROR (''Failed to list and import existing users with query: ''
                              @ queryPath b))
                       (call Callback (Some msg))))),
          snd (importUsers e n b (Some ex) Callback))"
  using assms by (simp add: searchUsers_def Let_def response_status_def js_less_def)

lemma searchUsers_all_called:
  assumes "remote e (searchRequest b) = Response c (Json (Some ex))"
      and "\<forall>ku \<in> set (number n (dispatched b ex)). \<exists>err. snd (iteratee e ku) = Called err"
  shows "requests (fst (fst (searchUsers e n b Callback)))
           = searchRequest b # concat (map (\<lambda>ku. requests (fst (iteratee e ku))) (number n (dispatched b ex)))
       \<and> (\<exists>err. snd (fst (searchUsers e n b Callback)) = Called err)
       \<and> (snd (fst (searchUsers e n b Callback)) = Called None
            \<longleftrightarrow> (\<forall>ku \<in> set (number n (dispatched b ex)). snd (iteratee e ku) = Called None))"
proof -
  from importUsers_all_called[OF assms(2)] obtain err where
    i: "requests (fst (fst (importUsers e n b (Some ex) Callback)))
           = concat (map (\<lambda>ku. requests (fst (iteratee e ku))) (number n (dispatched b ex)))"
       "snd (fst (importUsers e n b (Some ex) Callback)) = Called err"
       "(err = None) = (\<forall>ku \<in> set (number n (dispatched b ex)). snd (iteratee e ku) = Called None)"
    by auto
  show ?thesis
    using i by (simp add: searchUsers_read[OF assms(1)] try_catch_def handler_def emit_def)
qed

lemma searchUsers_unreadable:
  assumes "unreadable (remote e (searchRequest b))"
  shows "requests (fst (fst (searchUsers e n b Callback))) = [searchRequest b]
       \<and> (\<exists>msg. snd (fst (searchUsers e n b Callback)) = Called (Some msg))
       \<and> Log ERROR (''Failed to list and import existing users with query: '' @ queryPath b)
            \<in> set (fst (fst (searchUsers e n b Callback)))"
proof (cases "remote e (searchRequest b)")
  case (NetworkError m)
  with assms show ?thesis by (simp add: unreadable_def)
next
  case (Response c body)
  show ?thesis
  proof (cases body)
    case Unparseable
    with Response show ?thesis
      by (simp add: searchUsers_def Let_def response_status_def js_less_def
          try_catch_def handler_def emit_def before_def call_def)
  next
    case (Json users)
    with assms Response have "users = None" by (simp add: unreadable_def)
    with Response Json show ?thesis
      by (simp add: searchUsers_def Let_def response_status_def js_less_def importUsers_def
          try_catch_def handler_def emit_def before_def call_def)
  qed
qed

lemma eachLimit_stops:
  assumes "snd (fst (searchUsers e n b Callback)) \<noteq> Called None"
  shows "eachLimit e n (b # bs) = fst (searchUsers e n b Callback)"
  using assms
  by (cases "snd (fst (searchUsers e n b Callback))")
     (auto split: option.splits)

lemma eachLimit_goes_on:
  assumes "snd (fst (searchUsers e n b Callback)) = Called None"
  shows "eachLimit e n (b # bs)
       = before (fst (fst (searchUsers e n b Callback))) (eachLimit e (snd (searchUsers e n b Callback)) bs)"
  using assms by simp


lemma pages_one_two: "pages 1 [x, y] [] = Some [[x], [y]]"
  by (subst pages.simps, simp add: splice0_def)+

lemma pages_one_one: "pages 1 [x] [] = Some [[x]]"
  by (subst pages.simps, simp add: splice0_def)+

lemma eachLimit_prefix:
  assumes "unreadable (remote e (searchRequest b))"
  shows "requests (fst (eachLimit e n (as @ b # bs)))
       = requests (fst (eachLimit e n as)) @ (if snd (eachLimit e n as) = Called None then [searchRequest b] else [])"
proof (induction as arbitrary: n)
  case Nil
  from searchUsers_unreadable[OF assms, of n] obtain msg where
    u: "requests (fst (fst (searchUsers e n b Callback))) = [searchRequest b]"
       "snd (fst (searchUsers e n b Callback)) = Called (Some msg)" by blast
  then have "eachLimit e n (b # bs) = fst (searchUsers e n b Callback)"
    by (intro eachLimit_stops) simp
  with u show ?case by simp
next
  case (Cons a as)
  show ?case
  proof (cases "snd (fst (searchUsers e n a Callback)) = Called None")
    case True
    have 1: "eachLimit e n ((a # as) @ b # bs)
        = before (fst (fst (searchUsers e n a Callback)))
            (eachLimit e (snd (searchUsers e n a Callback)) (as @ b # bs))"
      using eachLimit_goes_on[OF True, of "as @ b # bs"] by simp
    have 2: "eachLimit e n (a # as)
        = before (fst (fst (searchUsers e n a Callback)))
            (eachLimit e (snd (searchUsers e n a Callback)) as)"
      by (rule eachLimit_goes_on[OF True])
    show ?thesis unfolding 1 2 using Cons.IH[of "snd (searchUsers e n a Callback)"] by simp
  next
    case False
    have 1: "eachLimit e n ((a # as) @ b # bs) = fst (searchUsers e n a Callback)"
      using eachLimit_stops[OF False, of "as @ b # bs"] by simp
    have 2: "eachLimit e n (a # as) = fst (searchUsers e n a Callback)"
      by (rule eachLimit_stops[OF False])
    show ?thesis unfolding 1 2 using False by simp
  qed
qed




text \<open>
  Claim C4, as stated, fails: an answer to the search that cannot be parsed is passed
  as an error to the callback of \<open>async.eachLimit\<close>, which ends the run. The page of
  \<open>dora\<close>, processed without trouble when it is the only one, is never searched when
  it comes after the page whose answer is garbled.
\<close>

theorem search_failure_counterexample:
  "run_requests (processUsers garbled_env (Some [bob, dora])) = Some [searchRequest [bob]]
   \<and> run_requests (processUsers garbled_env (Some [dora]))
       = Some [searchRequest [dora], createUserRequest garbled_env 0 dora,
               credentialsRequest dora, permissionsRequest dora]"
proof -
  have u: "unreadable (remote garbled_env (searchRequest [bob]))"
    by (simp add: unreadable_def garbled_env_def service_but_def searchRequest_def createRequest_def)
  from searchUsers_unreadable[OF u, of 0] obtain msg where
    s: "requests (fst (fst (searchUsers garbled_env 0 [bob] Callback))) = [searchRequest [bob]]"
       "snd (fst (searchUsers garbled_env 0 [bob] Callback)) = Called (Some msg)" by blast
  then have "eachLimit garbled_env 0 [[bob], [dora]] = fst (searchUsers garbled_env 0 [bob] Callback)"
    by (intro eachLimit_stops) simp
  with s have 1: "run_requests (processUsers garbled_env (Some [bob, dora])) = Some [searchRequest [bob]]"
    by (simp add: run_requests_def processUsers_def pages_one_two garbled_env_def and_then_def)
  have rd: "remote garbled_env (searchRequest [dora]) = Response 200 (Json (Some []))"
    by (simp add: garbled_env_def service_but_def service_def searchRequest_def createRequest_def
        queryPath_def bob_def dora_def)
  have d: "number 0 (dispatched [dora] []) = [(0, dora)]"
    by (simp add: dispatched_def userMap_of_def assignIds_def dora_def truthy_def)
  have cu: "requests (fst (iteratee garbled_env (0, dora)))
              = [createUserRequest garbled_env 0 dora, credentialsRequest dora, permissionsRequest dora]
            \<and> snd (iteratee garbled_env (0, dora)) = Called None"
    by (simp add: iteratee_def step_defs request_defs garbled_env_def service_but_def service_def
        all_fine_def dora_def mapUserData_def mapPersonal_def mapUserData_log_def translate_def
        truthy_def js_string_def preferredContactTypes_def)
  have called: "\<forall>ku \<in> set (number 0 (dispatched [dora] [])). \<exists>err. snd (iteratee garbled_env ku) = Called err"
    using cu by (simp add: d)
  from searchUsers_all_called[OF rd called] cu
  have s2: "requests (fst (fst (searchUsers garbled_env 0 [dora] Callback)))
             = [searchRequest [dora], createUserRequest garbled_env 0 dora,
                credentialsRequest dora, permissionsRequest dora]"
    and c2: "snd (fst (searchUsers garbled_env 0 [dora] Callback)) = Called None"
    by (simp_all add: d)
  have "eachLimit garbled_env 0 [[dora]]
      = before (fst (fst (searchUsers garbled_env 0 [dora] Callback)))
          (eachLimit garbled_env (snd (searchUsers garbled_env 0 [dora] Callback)) [])"
    by (rule eachLimit_goes_on[OF c2])
  with s2 have 2: "run_requests (processUsers garbled_env (Some [dora]))
       = Some [searchRequest [dora], createUserRequest garbled_env 0 dora,
               credentialsRequest dora, permissionsRequest dora]"
    by (simp add: run_requests_def processUsers_def pages_one_one garbled_env_def and_then_def)
  show ?thesis using 1 2 by simp
qed

text \<open>
  Claim C4, amended. Where the answer to the search for one page cannot be parsed, the
  search is the only request sent for that page (no record of it is created or
  updated), the failure is logged once for the page with its query, and an error is
  passed on that ends the run: no later page is searched. The pages before it are
  processed as they would be without it.
\<close>

theorem search_failure_ends_run:
  assumes "unreadable (remote e (searchRequest b))"
  shows "requests (fst (eachLimit e n (b # bs))) = [searchRequest b]
       \<and> (\<exists>msg. snd (eachLimit e n (b # bs)) = Called (Some msg))
       \<and> Log ERROR (''Failed to list and import existing users with query: '' @ queryPath b)
            \<in> set (fst (eachLimit e n (b # bs)))
       \<and> requests (fst (eachLimit e n (as @ b # bs)))
           = requests (fst (eachLimit e n as))
             @ (if snd (eachLimit e n as) = Called None then [searchRequest b] else [])"
proof -
  from searchUsers_unreadable[OF assms, of n] obtain msg where
    u: "requests (fst (fst (searchUsers e n b Callback))) = [searchRequest b]"
       "snd (fst (searchUsers e n b Callback)) = Called (Some msg)"
       "Log ERROR (''Failed to list and import existing users with query: '' @ queryPath b)
            \<in> set (fst (fst (searchUsers e n b Callback)))" by blast
  then have "eachLimit e n (b # bs) = fst (searchUsers e n b Callback)"
    by (intro eachLimit_stops) simp
  with u eachLimit_prefix[OF assms, of n as bs] show ?thesis by simp
qed

theorem search_failure_ends_run_witness:
  "unreadable (remote garbled_env (searchRequest [bob]))
   \<and> requests (fst (eachLimit garbled_env 0 ([bob] # [[dora]]))) = [searchRequest [bob]]
   \<and> (\<exists>msg. snd (eachLimit garbled_env 0 ([bob] # [[dora]])) = Called (Some msg))"
proof -
  have u: "unreadable (remote garbled_env (searchRequest [bob]))"
    by (simp add: unreadable_def garbled_env_def service_but_def searchRequest_def createRequest_def)
  from search_failure_ends_run[OF u, of 0 "[[dora]]" "[]"] u show ?thesis by simp
qed

end
